theory Spec2Isabelle
  imports Complex_Main "HOL-Library.Sublist" "HOL-Library.AList"
begin

section \<open>Python values\<close>

text \<open>
  The bot keeps its state in dataclasses whose fields are not type-checked: what
  \<^verbatim>\<open>json.load\<close> finds in the state file is stored as it is. A field therefore holds a
  Python value of the kinds JSON produces. A character of a \<open>string\<close> is a code point below
  256. \<open>PStr\<close> holds a Python string all of whose code points are below 256; \<open>PWide\<close> holds
  any other string, by its code points, among them the surrogates that an escape in a JSON
  text can spell on their own. The keys of a dict are strings of the first kind. Floats are
  finite reals; NaN and the infinities are not represented.
\<close>

datatype pyval =
    PNone
  | PBool bool
  | PInt int
  | PFloat real
  | PStr string
  | PWide "int list"
  | PList "pyval list"
  | PDict "(string \<times> pyval) list"

text \<open>The exceptions the modelled code can meet; all of them derive from \<^verbatim>\<open>Exception\<close>.\<close>

datatype exn =
    OSError
  | JSONDecodeError
  | AttributeError
  | TypeError
  | ValueError
  | UnicodeEncodeError
  | HTTPException

text \<open>Truth value testing, as \<^verbatim>\<open>if x\<close>, \<^verbatim>\<open>not x\<close> and \<^verbatim>\<open>x or y\<close> use it.\<close>

fun truthy :: "pyval \<Rightarrow> bool" where
  "truthy PNone = False"
| "truthy (PBool b) = b"
| "truthy (PInt i) = (i \<noteq> 0)"
| "truthy (PFloat r) = (r \<noteq> 0)"
| "truthy (PStr s) = (s \<noteq> [])"
| "truthy (PWide cps) = (cps \<noteq> [])"
| "truthy (PList vs) = (vs \<noteq> [])"
| "truthy (PDict kvs) = (kvs \<noteq> [])"

definition py_or :: "pyval \<Rightarrow> pyval \<Rightarrow> pyval" where
  "py_or x y = (if truthy x then x else y)"

text \<open>\<^verbatim>\<open>d.get(k)\<close> and \<^verbatim>\<open>d.get(k, default)\<close> on a dict given by its items.\<close>

definition dict_get :: "(string \<times> 'a) list \<Rightarrow> string \<Rightarrow> 'a \<Rightarrow> 'a" where
  "dict_get kvs k dflt = (case map_of kvs k of None \<Rightarrow> dflt | Some v \<Rightarrow> v)"

subsection \<open>Strings\<close>

text \<open>
  \<^verbatim>\<open>str.lower()\<close> on code points below 256: the letters A to Z and the capital letters of
  Latin-1, which are 192 to 222 without the multiplication sign 215, move up by 32.
\<close>

definition lower_char :: "char \<Rightarrow> char" where
  "lower_char c =
     (let n = (of_char c :: int) in
      if (65 \<le> n \<and> n \<le> 90) \<or> (192 \<le> n \<and> n \<le> 222 \<and> n \<noteq> 215) then char_of (n + 32)
      else c)"

definition lower :: "string \<Rightarrow> string" where
  "lower s = map lower_char s"

text \<open>
  \<^verbatim>\<open>str.lower()\<close> of a string with wider code points, when the result has none: the only
  code points from 256 on that \<^verbatim>\<open>lower\<close> maps below 256 are U+0178, U+1E9E, U+212A and U+212B.
\<close>

definition narrow_lower_code :: "int \<Rightarrow> char option" where
  "narrow_lower_code cp =
     (if 0 \<le> cp \<and> cp < 256 then Some (lower_char (char_of cp))
      else if cp = 0x178 then Some (CHR 0xFF)
      else if cp = 0x1E9E then Some (CHR 0xDF)
      else if cp = 0x212A then Some (CHR ''k'')
      else if cp = 0x212B then Some (CHR 0xE5)
      else None)"

definition narrow_lower :: "int list \<Rightarrow> string option" where
  "narrow_lower cps = those (map narrow_lower_code cps)"

text \<open>The code points below 256 for which \<^verbatim>\<open>str.isspace()\<close> holds.\<close>

definition is_space :: "char \<Rightarrow> bool" where
  "is_space c = (c \<in> set [CHR 0x09, CHR 0x0A, CHR 0x0B, CHR 0x0C, CHR 0x0D,
                           CHR 0x1C, CHR 0x1D, CHR 0x1E, CHR 0x1F, CHR 0x20,
                           CHR 0x85, CHR 0xA0])"

text \<open>\<^verbatim>\<open>str.strip()\<close>.\<close>

definition strip :: "string \<Rightarrow> string" where
  "strip s = rev (dropWhile is_space (rev (dropWhile is_space s)))"

subsection \<open>Integers from and to text\<close>

text \<open>
  Python 3.11 refuses to convert between text and an integer of more than 4300 decimal
  digits, in either direction.
\<close>

definition MAX_STR_DIGITS :: int where
  "MAX_STR_DIGITS = 4300"

text \<open>The number of decimal digits of an integer that is not negative.\<close>

function decimal_digits :: "int \<Rightarrow> int" where
  "decimal_digits n = (if n < 10 then 1 else 1 + decimal_digits (n div 10))"
  by pat_completeness auto
termination
  by (relation "measure nat") auto

declare decimal_digits.simps [simp del]

text \<open>
  \<^verbatim>\<open>int(s)\<close> first rewrites a string that is not pure ASCII: a code point below 127 stays,
  a space of Unicode becomes a blank, a decimal digit of Unicode becomes the ASCII digit of
  its value, and anything else is refused. The spaces are those of \<^verbatim>\<open>str.isspace()\<close>; the
  decimal digits come in runs of ten from the listed zeros (Unicode 14). On a string that
  is pure ASCII the rewriting changes nothing that the parser accepts.
\<close>

definition unicode_spaces :: "int list" where
  "unicode_spaces =
     [0x09, 0x0A, 0x0B, 0x0C, 0x0D, 0x1C, 0x1D, 0x1E, 0x1F, 0x20, 0x85, 0xA0, 0x1680,
      0x2000, 0x2001, 0x2002, 0x2003, 0x2004, 0x2005, 0x2006, 0x2007, 0x2008, 0x2009,
      0x200A, 0x2028, 0x2029, 0x202F, 0x205F, 0x3000]"

definition decimal_zeros :: "int list" where
  "decimal_zeros =
     [0x30, 0x660, 0x6F0, 0x7C0, 0x966, 0x9E6, 0xA66, 0xAE6, 0xB66, 0xBE6, 0xC66, 0xCE6,
      0xD66, 0xDE6, 0xE50, 0xED0, 0xF20, 0x1040, 0x1090, 0x17E0, 0x1810, 0x1946, 0x19D0,
      0x1A80, 0x1A90, 0x1B50, 0x1BB0, 0x1C40, 0x1C50, 0xA620, 0xA8D0, 0xA900, 0xA9D0,
      0xA9F0, 0xAA50, 0xABF0, 0xFF10, 0x104A0, 0x10D30, 0x11066, 0x110F0, 0x11136,
      0x111D0, 0x112F0, 0x11450, 0x114D0, 0x11650, 0x116C0, 0x11730, 0x118E0, 0x11950,
      0x11C50, 0x11D50, 0x11DA0, 0x16A60, 0x16AC0, 0x16B50, 0x1D7CE, 0x1D7D8, 0x1D7E2,
      0x1D7EC, 0x1D7F6, 0x1E140, 0x1E2F0, 0x1E950, 0x1FBF0]"

definition decimal_value :: "int \<Rightarrow> int option" where
  "decimal_value cp =
     (case filter (\<lambda>z. z \<le> cp \<and> cp < z + 10) decimal_zeros of
        [] \<Rightarrow> None
      | z # zs \<Rightarrow> Some (cp - z))"

definition ascii_of_code :: "int \<Rightarrow> char option" where
  "ascii_of_code cp =
     (if 0 \<le> cp \<and> cp < 127 then Some (char_of cp)
      else if cp \<in> set unicode_spaces then Some (CHR 0x20)
      else map_option (\<lambda>d. char_of (48 + d)) (decimal_value cp))"

definition digit_val :: "char \<Rightarrow> int option" where
  "digit_val c = map_of (zip ''0123456789'' [0, 1, 2, 3, 4, 5, 6, 7, 8, 9]) c"

text \<open>
  The digits of a decimal literal after its first digit: single underscores may stand
  between digits.
\<close>

fun py_digits :: "int \<Rightarrow> string \<Rightarrow> int option" where
  "py_digits acc [] = Some acc"
| "py_digits acc [c] =
     (case digit_val c of None \<Rightarrow> None | Some v \<Rightarrow> Some (10 * acc + v))"
| "py_digits acc (c # d # ds) =
     (if c = CHR ''_'' then
        (case digit_val d of None \<Rightarrow> None | Some v \<Rightarrow> py_digits (10 * acc + v) ds)
      else
        (case digit_val c of None \<Rightarrow> None | Some v \<Rightarrow> py_digits (10 * acc + v) (d # ds)))"

text \<open>A literal with more digits than the limit is refused, leading zeros counted.\<close>

definition py_unsigned :: "string \<Rightarrow> int option" where
  "py_unsigned s =
     (if MAX_STR_DIGITS < int (length (filter (\<lambda>c. digit_val c \<noteq> None) s)) then None
      else
        (case s of
           [] \<Rightarrow> None
         | c # cs \<Rightarrow> (case digit_val c of None \<Rightarrow> None | Some v \<Rightarrow> py_digits v cs)))"

text \<open>The blanks the parser of integers skips at both ends.\<close>

definition is_ascii_space :: "char \<Rightarrow> bool" where
  "is_ascii_space c = (c \<in> set [CHR 0x09, CHR 0x0A, CHR 0x0B, CHR 0x0C, CHR 0x0D, CHR 0x20])"

definition int_of_ascii :: "string \<Rightarrow> int option" where
  "int_of_ascii s =
     (case rev (dropWhile is_ascii_space (rev (dropWhile is_ascii_space s))) of
        [] \<Rightarrow> None
      | c # cs \<Rightarrow>
          if c = CHR ''-'' then map_option uminus (py_unsigned cs)
          else if c = CHR ''+'' then py_unsigned cs
          else py_unsigned (c # cs))"

text \<open>\<^verbatim>\<open>int(s)\<close> for a string given by its code points.\<close>

definition int_of_codes :: "int list \<Rightarrow> int option" where
  "int_of_codes cps =
     (case those (map ascii_of_code cps) of
        None \<Rightarrow> None
      | Some s \<Rightarrow> int_of_ascii s)"

text \<open>\<^verbatim>\<open>int(x)\<close>: a float is truncated towards zero, \<^verbatim>\<open>None\<close> and containers are refused.\<close>

fun py_int :: "pyval \<Rightarrow> exn + int" where
  "py_int (PInt i) = Inr i"
| "py_int (PBool b) = Inr (if b then 1 else 0)"
| "py_int (PFloat r) = Inr (if 0 \<le> r then \<lfloor>r\<rfloor> else \<lceil>r\<rceil>)"
| "py_int (PStr s) =
     (case int_of_codes (map of_char s) of None \<Rightarrow> Inl ValueError | Some i \<Rightarrow> Inr i)"
| "py_int (PWide cps) =
     (case int_of_codes cps of None \<Rightarrow> Inl ValueError | Some i \<Rightarrow> Inr i)"
| "py_int PNone = Inl TypeError"
| "py_int (PList vs) = Inl TypeError"
| "py_int (PDict kvs) = Inl TypeError"

subsection \<open>What the serialiser can write\<close>

text \<open>
  \<^verbatim>\<open>json.dump\<close> walks a value in order and writes it piece by piece. The pieces that can
  fail are the atoms: with \<^verbatim>\<open>ensure_ascii=False\<close> a string goes into the UTF-8 file as it is,
  and a surrogate cannot be encoded; an integer of more than 4300 digits cannot be turned
  into text.
\<close>

fun atoms :: "pyval \<Rightarrow> pyval list"
  and atoms_list :: "pyval list \<Rightarrow> pyval list"
  and atoms_items :: "(string \<times> pyval) list \<Rightarrow> pyval list" where
  "atoms (PList vs) = atoms_list vs"
| "atoms (PDict kvs) = atoms_items kvs"
| "atoms v = [v]"
| "atoms_list [] = []"
| "atoms_list (v # vs) = atoms v @ atoms_list vs"
| "atoms_items [] = []"
| "atoms_items ((k, v) # kvs) = atoms v @ atoms_items kvs"

definition surrogate :: "int \<Rightarrow> bool" where
  "surrogate cp = (0xD800 \<le> cp \<and> cp \<le> 0xDFFF)"

definition oversized :: "pyval \<Rightarrow> bool" where
  "oversized v =
     (case v of PInt i \<Rightarrow> MAX_STR_DIGITS < decimal_digits \<bar>i\<bar> | other \<Rightarrow> False)"

text \<open>The exception that writing an atom raises, if any.\<close>

definition atom_error :: "pyval \<Rightarrow> exn option" where
  "atom_error v =
     (case v of
        PInt i \<Rightarrow> if oversized v then Some ValueError else None
      | PWide cps \<Rightarrow> if list_ex surrogate cps then Some UnicodeEncodeError else None
      | other \<Rightarrow> None)"

fun first_error :: "pyval list \<Rightarrow> exn option" where
  "first_error [] = None"
| "first_error (v # vs) = (case atom_error v of Some e \<Rightarrow> Some e | None \<Rightarrow> first_error vs)"

definition dump_error :: "pyval \<Rightarrow> exn option" where
  "dump_error v = first_error (atoms v)"

text \<open>A value that \<^verbatim>\<open>json.dump\<close> writes to its end: no atom of it raises.\<close>

definition writable :: "pyval \<Rightarrow> bool" where
  "writable v = list_all (\<lambda>a. atom_error a = None) (atoms v)"

section \<open>Data model\<close>

definition DEFAULT_INTERVAL_SEC :: int where
  "DEFAULT_INTERVAL_SEC = 5 * 60"

record TrackedItem =
  url :: pyval
  nickname :: pyval
  last_status :: pyval
  last_title :: pyval
  last_checked :: pyval

text \<open>
  \<^verbatim>\<open>items\<close> is the dict keyed by URL, in insertion order. Its dataclass default \<^verbatim>\<open>None\<close> is
  never built: every configuration of the program comes from \<^verbatim>\<open>load_state\<close>, which always
  passes a dict, so \<^verbatim>\<open>self.items or {}\<close> is \<^verbatim>\<open>self.items\<close>.
\<close>

record BotConfig =
  interval_sec :: int
  alert_channel_id :: pyval
  items :: "(string \<times> TrackedItem) list"

text \<open>\<^verbatim>\<open>BotConfig(items={})\<close>: the other fields take their defaults.\<close>

definition BotConfig_empty :: BotConfig where
  "BotConfig_empty =
     \<lparr>interval_sec = DEFAULT_INTERVAL_SEC, alert_channel_id = PNone, items = []\<rparr>"

definition asdict :: "TrackedItem \<Rightarrow> pyval" where
  "asdict it =
     PDict [(''url'', url it), (''nickname'', nickname it), (''last_status'', last_status it),
            (''last_title'', last_title it), (''last_checked'', last_checked it)]"

definition to_dict :: "BotConfig \<Rightarrow> pyval" where
  "to_dict c =
     PDict [(''interval_sec'', PInt (interval_sec c)),
            (''alert_channel_id'', alert_channel_id c),
            (''items'', PDict (map (\<lambda>(u, it). (u, asdict it)) (items c)))]"

definition field_names :: "string list" where
  "field_names = [''url'', ''nickname'', ''last_status'', ''last_title'', ''last_checked'']"

text \<open>
  \<^verbatim>\<open>TrackedItem(**it)\<close>: the argument must be a mapping, every key must be a field, and
  \<^verbatim>\<open>url\<close>, the one field without a default, must be given. The values are not checked.
\<close>

fun TrackedItem_kw :: "pyval \<Rightarrow> exn + TrackedItem" where
  "TrackedItem_kw (PDict kvs) =
     (if list_ex (\<lambda>k. k \<notin> set field_names) (map fst kvs) then Inl TypeError
      else
        (case map_of kvs ''url'' of
           None \<Rightarrow> Inl TypeError
         | Some u \<Rightarrow>
             Inr \<lparr>url = u,
                  nickname = dict_get kvs ''nickname'' PNone,
                  last_status = dict_get kvs ''last_status'' PNone,
                  last_title = dict_get kvs ''last_title'' PNone,
                  last_checked = dict_get kvs ''last_checked'' PNone\<rparr>))"
| "TrackedItem_kw v = Inl TypeError"

text \<open>The dict comprehension of \<^verbatim>\<open>from_dict\<close>; the first item that raises ends it.\<close>

fun from_items :: "(string \<times> pyval) list \<Rightarrow> exn + (string \<times> TrackedItem) list" where
  "from_items [] = Inr []"
| "from_items ((u, v) # rest) =
     (case TrackedItem_kw v of
        Inl e \<Rightarrow> Inl e
      | Inr it \<Rightarrow>
          (case from_items rest of
             Inl e \<Rightarrow> Inl e
           | Inr its \<Rightarrow> Inr ((u, it) # its)))"

text \<open>
  \<^verbatim>\<open>BotConfig.from_dict\<close>. \<^verbatim>\<open>d.get\<close> needs a dict, and so does \<^verbatim>\<open>.items()\<close> on
  \<^verbatim>\<open>d.get("items") or {}\<close>; anything else raises AttributeError.
\<close>

fun from_dict :: "pyval \<Rightarrow> exn + BotConfig" where
  "from_dict (PDict kvs) =
     (case py_or (dict_get kvs ''items'' PNone) (PDict []) of
        PDict ivs \<Rightarrow>
          (case from_items ivs of
             Inl e \<Rightarrow> Inl e
           | Inr its \<Rightarrow>
               (case py_int (dict_get kvs ''interval_sec'' (PInt DEFAULT_INTERVAL_SEC)) of
                  Inl e \<Rightarrow> Inl e
                | Inr n \<Rightarrow>
                    Inr \<lparr>interval_sec = n,
                         alert_channel_id = dict_get kvs ''alert_channel_id'' PNone,
                         items = its\<rparr>))
      | other \<Rightarrow> Inl AttributeError)"
| "from_dict v = Inl AttributeError"

section \<open>Persistence\<close>

text \<open>
  The state file, as the program can find it. The text of a JSON document is not modelled:
  a file that holds a complete JSON text of a value is \<open>Document\<close> of that value, and
  \<^verbatim>\<open>json.load\<close> gives the value back unless the text has an integer of more than 4300
  digits. \<open>Partial v n\<close> is a file holding only the first \<open>n\<close> characters of the serialisation
  of \<open>v\<close>, a strict prefix of it: what is on disk when a write was cut short. \<open>Cut v\<close> is the
  file a dump of \<open>v\<close> leaves when it raises: the serialisation of \<open>v\<close> up to the atom that
  could not be written, again a strict prefix. A strict prefix of the serialisation of a
  dict lacks the closing brace, so \<^verbatim>\<open>json.load\<close> refuses it, as it refuses any other text
  that is not JSON (\<open>Garbage\<close>). \<open>Unreadable\<close> is a path that exists and cannot be opened or
  decoded.
\<close>

datatype state_file =
    Missing
  | Unreadable
  | Document pyval
  | Partial pyval nat
  | Cut pyval
  | Garbage string

definition path_exists :: "state_file \<Rightarrow> bool" where
  "path_exists f = (f \<noteq> Missing)"

text \<open>\<^verbatim>\<open>open(STATE_FILE, "r")\<close> followed by \<^verbatim>\<open>json.load\<close>.\<close>

fun json_load :: "state_file \<Rightarrow> exn + pyval" where
  "json_load Missing = Inl OSError"
| "json_load Unreadable = Inl OSError"
| "json_load (Document v) = (if list_ex oversized (atoms v) then Inl ValueError else Inr v)"
| "json_load (Partial v n) = Inl JSONDecodeError"
| "json_load (Cut v) = Inl JSONDecodeError"
| "json_load (Garbage t) = Inl JSONDecodeError"

text \<open>
  \<^verbatim>\<open>load_state\<close>. The result is a sum so that an exception leaving the function would be a
  value \<open>Inl\<close>; the handler \<^verbatim>\<open>except Exception\<close> catches every exception of the body.
\<close>

definition load_state :: "state_file \<Rightarrow> exn + BotConfig" where
  "load_state disk =
     (if \<not> path_exists disk then Inr BotConfig_empty
      else
        (case (case json_load disk of Inl e \<Rightarrow> Inl e | Inr data \<Rightarrow> from_dict data) of
           Inl e \<Rightarrow> Inr BotConfig_empty
         | Inr c \<Rightarrow> Inr c))"

text \<open>
  \<^verbatim>\<open>save_state\<close> opens the state file itself in mode \<^verbatim>\<open>"w"\<close>, which truncates it, and dumps
  the serialisation into it. \<open>save_point\<close> names how far a call that raises nothing got: the
  process can stop before the open, after the open with only \<open>n\<close> characters of an
  unfinished dump on disk, or not at all.
\<close>

datatype save_point = BeforeOpen | Written nat | Closed

fun save_state_upto :: "save_point \<Rightarrow> BotConfig \<Rightarrow> state_file \<Rightarrow> state_file" where
  "save_state_upto BeforeOpen c disk = disk"
| "save_state_upto (Written n) c disk = Partial (to_dict c) n"
| "save_state_upto Closed c disk = Document (to_dict c)"

text \<open>
  The call itself. When an atom of the configuration cannot be written, \<^verbatim>\<open>json.dump\<close> raises
  in the middle of the dump, the file is closed with what was written before, and the
  exception leaves \<^verbatim>\<open>save_state\<close>; the result is then \<open>Inl\<close> of the exception and the file.
  An exception of the file system (a full disk, a missing permission) is not modelled.
\<close>

definition save_state :: "BotConfig \<Rightarrow> state_file \<Rightarrow> exn \<times> state_file + state_file" where
  "save_state c disk =
     (case dump_error (to_dict c) of
        Some e \<Rightarrow> Inl (e, Cut (to_dict c))
      | None \<Rightarrow> Inr (save_state_upto Closed c disk))"

section \<open>Stock checking\<close>

definition IN_STOCK_KEYWORDS :: "string list" where
  "IN_STOCK_KEYWORDS =
     [''op voorraad'', ''op=voorraad'', ''online op voorraad'', ''direct leverbaar'',
      ''morgen in huis'', ''in stock'', ''available'']"

definition OUT_STOCK_KEYWORDS :: "string list" where
  "OUT_STOCK_KEYWORDS =
     [''niet op voorraad'', ''uitverkocht'', ''tijdelijk uitverkocht'', ''niet beschikbaar'',
      ''niet leverbaar'', ''currently unavailable'', ''out of stock'']"

definition PREORDER_KEYWORDS :: "string list" where
  "PREORDER_KEYWORDS = [''pre-order'', ''preorder'', ''pre-orderen'', ''verwacht'']"

text \<open>
  The text of a page is made of code points below 256, and so are the strings in the
  values parsed from it: \<open>ldval\<close> is a parsed JSON value with such strings only. A script
  that spells a wider code point with an escape is outside this model of a page.
\<close>

datatype ldval =
    LNone
  | LBool bool
  | LInt int
  | LFloat real
  | LStr string
  | LList "ldval list"
  | LDict "(string \<times> ldval) list"

text \<open>
  The parsing libraries are not modelled; a page is given by what they report of it. A
  \<open>script\<close> is one element of \<^verbatim>\<open>soup.find_all("script", {"type": "application/ld+json"})\<close>:
  its \<^verbatim>\<open>.string\<close> and \<^verbatim>\<open>.text\<close>, the first group of \<^verbatim>\<open>AVAIL_PATTERN.search(content)\<close> and of
  \<^verbatim>\<open>NAME_PATTERN.search(content)\<close> (\<open>None\<close> when the pattern does not match), and the value of
  \<^verbatim>\<open>json.loads(content)\<close> (\<open>None\<close> when it raises). A \<open>page\<close> is the text \<^verbatim>\<open>fetch_html\<close>
  returned, its scripts in document order, \<^verbatim>\<open>get_text(" ")\<close> of it, and \<^verbatim>\<open>soup.title.string\<close>
  (\<open>None\<close> when there is no title element or it has no single string). The parser itself is
  taken not to raise.
\<close>

record script =
  sc_string :: "string option"
  sc_text :: string
  avail_found :: "string option"
  name_found :: "string option"
  loads :: "ldval option"

record page =
  source :: string
  ld_scripts :: "script list"
  visible_text :: string
  title_string :: "string option"

text \<open>\<^verbatim>\<open>content = sc.string\<close>, replaced by \<^verbatim>\<open>sc.text\<close> when it is \<^verbatim>\<open>None\<close> or empty.\<close>

definition script_content :: "script \<Rightarrow> string" where
  "script_content sc =
     (case sc_string sc of
        None \<Rightarrow> sc_text sc
      | Some c \<Rightarrow> if c = [] then sc_text sc else c)"

text \<open>
  The fast path of \<^verbatim>\<open>parse_jsonld_availability\<close>: the value it returns from inside the
  \<^verbatim>\<open>if m:\<close> block, or \<open>None\<close> when control goes on to the JSON parsing.
\<close>

definition fast_path :: "script \<Rightarrow> (string option \<times> string option) option" where
  "fast_path sc =
     (let name = name_found sc in
      case avail_found sc of
        None \<Rightarrow> None
      | Some g \<Rightarrow>
          (let raw = lower g in
           if sublist ''instock'' raw then Some (Some ''InStock'', name)
           else if sublist ''outofstock'' raw then Some (Some ''OutOfStock'', name)
           else if sublist ''preorder'' raw \<or> sublist ''pre-order'' raw
             then Some (Some ''PreOrder'', name)
           else None))"

text \<open>The first offer of a list that is a dict with a string \<^verbatim>\<open>availability\<close>.\<close>

fun first_offer :: "ldval list \<Rightarrow> string option" where
  "first_offer [] = None"
| "first_offer (LDict okvs # offs) =
     (case map_of okvs ''availability'' of
        Some (LStr a) \<Rightarrow> Some a
      | other \<Rightarrow> first_offer offs)"
| "first_offer (off # offs) = first_offer offs"

text \<open>
  The nested function \<^verbatim>\<open>extract\<close>. A dict answers for itself and is not searched further;
  a list is searched element by element.
\<close>

fun extract_offer :: "ldval \<Rightarrow> (string \<times> string option) option"
  and extract_els :: "ldval list \<Rightarrow> (string \<times> string option) option" where
  "extract_offer (LDict kvs) =
     (let nm = (case map_of kvs ''name'' of Some (LStr n) \<Rightarrow> Some n | other \<Rightarrow> None) in
      case dict_get kvs ''offers'' LNone of
        LDict okvs \<Rightarrow>
          (case map_of okvs ''availability'' of
             Some (LStr a) \<Rightarrow> Some (a, nm)
           | other \<Rightarrow> None)
      | LList offs \<Rightarrow> map_option (\<lambda>a. (a, nm)) (first_offer offs)
      | other \<Rightarrow> None)"
| "extract_offer (LList els) = extract_els els"
| "extract_offer v = None"
| "extract_els [] = None"
| "extract_els (el # els) =
     (case extract_offer el of
        Some res \<Rightarrow> Some res
      | None \<Rightarrow> extract_els els)"

text \<open>
  The JSON parsing of one script: the value returned after \<^verbatim>\<open>found = extract(data)\<close>, or
  \<open>None\<close> when \<^verbatim>\<open>json.loads\<close> raises or nothing is found and the loop goes to the next script.
\<close>

definition json_path :: "script \<Rightarrow> (string option \<times> string option) option" where
  "json_path sc =
     (case loads sc of
        None \<Rightarrow> None
      | Some data \<Rightarrow>
          (case extract_offer data of
             None \<Rightarrow> None
           | Some (avail_raw, nm) \<Rightarrow>
               (let avail_raw_l = lower avail_raw in
                if sublist ''instock'' avail_raw_l then Some (Some ''InStock'', nm)
                else if sublist ''outofstock'' avail_raw_l then Some (Some ''OutOfStock'', nm)
                else if sublist ''preorder'' avail_raw_l \<or> sublist ''pre-order'' avail_raw_l
                  then Some (Some ''PreOrder'', nm)
                else Some (Some ''Unknown'', nm))))"

text \<open>The loop over the scripts.\<close>

fun scan_scripts :: "script list \<Rightarrow> string option \<times> string option" where
  "scan_scripts [] = (None, None)"
| "scan_scripts (sc # scs) =
     (if script_content sc = [] then scan_scripts scs
      else
        (case fast_path sc of
           Some res \<Rightarrow> res
         | None \<Rightarrow>
             (case json_path sc of
                Some res \<Rightarrow> res
              | None \<Rightarrow> scan_scripts scs)))"

definition parse_jsonld_availability :: "page \<Rightarrow> string option \<times> string option" where
  "parse_jsonld_availability p = scan_scripts (ld_scripts p)"

definition any_kw :: "string \<Rightarrow> string list \<Rightarrow> bool" where
  "any_kw body words = list_ex (\<lambda>w. sublist w body) words"

definition keyword_status_fallback :: "page \<Rightarrow> string" where
  "keyword_status_fallback p =
     (let body = lower (visible_text p) in
      if any_kw body IN_STOCK_KEYWORDS then ''InStock''
      else if any_kw body OUT_STOCK_KEYWORDS then ''OutOfStock''
      else if any_kw body PREORDER_KEYWORDS then ''PreOrder''
      else ''Unknown'')"

definition extract_title :: "page \<Rightarrow> string option" where
  "extract_title p =
     (case title_string p of
        None \<Rightarrow> None
      | Some t \<Rightarrow> if t = [] then None else Some (strip t))"

text \<open>
  \<^verbatim>\<open>check_url\<close>, from what \<^verbatim>\<open>fetch_html\<close> returned: \<open>None\<close> for a failed request or a
  response other than 200.
\<close>

definition check_url :: "page option \<Rightarrow> string \<times> string option" where
  "check_url fetched =
     (case fetched of
        None \<Rightarrow> (''Unknown'', None)
      | Some p \<Rightarrow>
          if source p = [] then (''Unknown'', None)
          else
            (let (status, name) = parse_jsonld_availability p;
                 status = (case status of
                             None \<Rightarrow> keyword_status_fallback p
                           | Some st \<Rightarrow>
                               if st = [] \<or> st = ''Unknown'' then keyword_status_fallback p
                               else st);
                 title = (case name of
                            None \<Rightarrow> extract_title p
                          | Some n \<Rightarrow> if n = [] then extract_title p else Some n)
             in (status, title)))"

section \<open>The bot\<close>

text \<open>
  The module keeps one configuration \<^verbatim>\<open>cfg\<close>; with it the state holds the state file and
  the messages the alert channel has accepted, oldest first. A message is kept by the
  fields interpolated into it: the name, the two statuses and the link. Its site line is
  the network location of the link and its time line is the wall clock at the send.
\<close>

record message =
  m_name :: pyval
  m_old :: pyval
  m_new :: string
  m_link :: string

record state =
  cfg :: BotConfig
  disk :: state_file
  outbox :: "message list"

text \<open>
  What the world does during the turn of one item of a sweep: the identifiers of the
  \<^verbatim>\<open>!track remove\<close> commands handled while \<^verbatim>\<open>check_url\<close> is awaited, what \<^verbatim>\<open>fetch_html\<close>
  returns, \<^verbatim>\<open>time.time()\<close>, whether \<^verbatim>\<open>bot.get_channel\<close> finds the alert channel, and whether
  \<^verbatim>\<open>channel.send\<close> raises.
\<close>

record tick =
  removals :: "string list"
  fetched :: "page option"
  clock :: real
  channel_found :: bool
  send_raises :: bool

definition opt_str :: "string option \<Rightarrow> pyval" where
  "opt_str t = (case t of None \<Rightarrow> PNone | Some x \<Rightarrow> PStr x)"

text \<open>\<^verbatim>\<open>send_alert\<close>: nothing catches what \<^verbatim>\<open>channel.send\<close> raises.\<close>

definition send_alert :: "tick \<Rightarrow> string \<Rightarrow> pyval \<Rightarrow> pyval \<Rightarrow> string \<Rightarrow> state \<Rightarrow> exn + state" where
  "send_alert tk u title old new s =
     (if \<not> truthy (alert_channel_id (cfg s)) then Inr s
      else if \<not> channel_found tk then Inr s
      else
        (let name = py_or title (PStr u);
             old_s = py_or old (PStr ''Unknown'')
         in if send_raises tk then Inl HTTPException
            else Inr (s\<lparr>outbox := outbox s @
                       [\<lparr>m_name = name, m_old = old_s, m_new = new, m_link = u\<rparr>]\<rparr>)))"

text \<open>
  The body of the sweep loop for one item up to \<^verbatim>\<open>item.last_checked = time.time()\<close>,
  together with the arguments \<^verbatim>\<open>(title, old, new)\<close> of the call of \<^verbatim>\<open>send_alert\<close> that follows
  when \<^verbatim>\<open>changed\<close> holds. The arguments are read from the item after its fields were
  assigned, as the call expression reads them.
\<close>

definition observe :: "tick \<Rightarrow> TrackedItem \<Rightarrow> TrackedItem \<times> (pyval \<times> pyval \<times> string) option" where
  "observe tk item =
     (let (status, title) = check_url (fetched tk);
          changed = (PStr status \<noteq> last_status item \<and> last_status item \<noteq> PNone);
          first_time = (last_status item = PNone);
          changed = (if first_time \<and> status = ''InStock'' then True else changed);
          item = item\<lparr>last_status := PStr status\<rparr>;
          item = item\<lparr>last_title := py_or (opt_str title) (last_title item)\<rparr>;
          item = item\<lparr>last_checked := PFloat (clock tk)\<rparr>
      in (item,
          if changed
          then Some (last_title item, if \<not> first_time then last_status item else PNone, status)
          else None))"

text \<open>
  The rest of the body: the item is stored under its URL, the state is saved, the alert is
  sent. An exception, of the save or of the send, leaves the turn with the state as it is
  at the raise.
\<close>

definition sweep_item :: "tick \<Rightarrow> string \<times> TrackedItem \<Rightarrow> state \<Rightarrow> exn \<times> state + state" where
  "sweep_item tk entry s =
     (let (u, item) = entry;
          (item, call) = observe tk item;
          c = (cfg s)\<lparr>items := AList.update u item (items (cfg s))\<rparr>
      in case save_state c (disk s) of
           Inl (e, d) \<Rightarrow> Inl (e, s\<lparr>cfg := c, disk := d\<rparr>)
         | Inr d \<Rightarrow>
             (let s = s\<lparr>cfg := c, disk := d\<rparr>
              in case call of
                   None \<Rightarrow> Inr s
                 | Some (title, old, new) \<Rightarrow>
                     (case send_alert tk u title old new s of
                        Inl e \<Rightarrow> Inl (e, s)
                      | Inr s' \<Rightarrow> Inr s')))"

datatype reply = Removed string | NoMatch

text \<open>
  The search of \<^verbatim>\<open>track_remove\<close> by nickname: the URL of the first item whose nickname is
  truthy and equals the identifier in lower case. The identifier is a string of code points
  below 256. A truthy nickname that is not a string has no \<^verbatim>\<open>lower\<close>.
\<close>

fun find_nickname :: "string \<Rightarrow> (string \<times> TrackedItem) list \<Rightarrow> exn + string option" where
  "find_nickname ident [] = Inr None"
| "find_nickname ident ((u, item) # rest) =
     (if truthy (nickname item) then
        (case nickname item of
           PStr n \<Rightarrow> if lower n = lower ident then Inr (Some u) else find_nickname ident rest
         | PWide cps \<Rightarrow>
             if narrow_lower cps = Some (lower ident) then Inr (Some u)
             else find_nickname ident rest
         | other \<Rightarrow> Inl AttributeError)
      else find_nickname ident rest)"

text \<open>
  \<^verbatim>\<open>cfg.items.pop(u, None)\<close> followed by \<^verbatim>\<open>save_state(cfg)\<close> and the reply, as both branches of
  \<^verbatim>\<open>track_remove\<close> have it.
\<close>

definition pop_and_save :: "string \<Rightarrow> string \<Rightarrow> state \<Rightarrow> exn \<times> state + state \<times> reply" where
  "pop_and_save u ident s =
     (let c = (cfg s)\<lparr>items := AList.delete u (items (cfg s))\<rparr>
      in case save_state c (disk s) of
           Inl (e, d) \<Rightarrow> Inl (e, s\<lparr>cfg := c, disk := d\<rparr>)
         | Inr d \<Rightarrow> Inr (s\<lparr>cfg := c, disk := d\<rparr>, Removed ident))"

text \<open>\<^verbatim>\<open>track_remove\<close>; an exception leaves it with the state as it is at the raise.\<close>

definition track_remove :: "string \<Rightarrow> state \<Rightarrow> exn \<times> state + state \<times> reply" where
  "track_remove ident s =
     (if ident \<in> fst ` set (items (cfg s)) then pop_and_save ident ident s
      else
        (case find_nickname ident (items (cfg s)) of
           Inl e \<Rightarrow> Inl (e, s)
         | Inr to_del \<Rightarrow>
             (case to_del of
                None \<Rightarrow> Inr (s, NoMatch)
              | Some u \<Rightarrow>
                  if u = [] then Inr (s, NoMatch)
                  else pop_and_save u ident s)))"

text \<open>
  The commands handled during one await, in order. A command that raises is reported by
  the command framework, and the next command finds the state as the raise left it.
\<close>

fun control_plane :: "string list \<Rightarrow> state \<Rightarrow> state" where
  "control_plane [] s = s"
| "control_plane (ident # idents) s =
     (case track_remove ident s of
        Inl (e, s') \<Rightarrow> control_plane idents s'
      | Inr (s', r) \<Rightarrow> control_plane idents s')"

text \<open>
  One sweep of \<^verbatim>\<open>monitor_loop\<close>. The loop runs over \<^verbatim>\<open>list(cfg.items.items())\<close>, the items as
  they are when the sweep starts; the world is asked by URL what happens in each turn. An
  exception of a turn ends the loop, and with it the task that runs it. Only the sweep loop assigns to the fields of an item
  and a command never does, so an entry of the snapshot has, when its turn comes, the
  values it had at the start.
\<close>

fun sweep_items ::
  "(string \<Rightarrow> tick) \<Rightarrow> (string \<times> TrackedItem) list \<Rightarrow> state \<Rightarrow> exn \<times> state + state" where
  "sweep_items world [] s = Inr s"
| "sweep_items world ((u, item) # rest) s =
     (case sweep_item (world u) (u, item) (control_plane (removals (world u)) s) of
        Inl failure \<Rightarrow> Inl failure
      | Inr s' \<Rightarrow> sweep_items world rest s')"

definition sweep :: "(string \<Rightarrow> tick) \<Rightarrow> state \<Rightarrow> exn \<times> state + state" where
  "sweep world s = sweep_items world (items (cfg s)) s"

section \<open>The specification's normalisation\<close>

text \<open>
  The normalisation of an availability token in the specification's words: the token is
  compared without regard to case; containing "instock" gives InStock, containing
  "outofstock" gives OutOfStock, containing "preorder" or "pre-order" gives PreOrder, and
  any other value gives Unknown.
\<close>

definition token_status :: "string \<Rightarrow> string" where
  "token_status tok =
     (let t = lower tok in
      if sublist ''instock'' t then ''InStock''
      else if sublist ''outofstock'' t then ''OutOfStock''
      else if sublist ''preorder'' t \<or> sublist ''pre-order'' t then ''PreOrder''
      else ''Unknown'')"

text \<open>The fast pattern finds no token in the script, or one that normalises to Unknown.\<close>

definition fast_inconclusive :: "script \<Rightarrow> bool" where
  "fast_inconclusive sc =
     (case avail_found sc of None \<Rightarrow> True | Some tok \<Rightarrow> token_status tok = ''Unknown'')"

section \<open>Example inputs\<close>

definition ex_url_a :: string where
  "ex_url_a = ''https://www.bol.com/nl/p/booster-box/1/''"

definition ex_url_b :: string where
  "ex_url_b = ''https://www.mediamarkt.nl/nl/product/elite-trainer-box-2.html''"

text \<open>An item last seen out of stock, and an item that was never checked.\<close>

definition ex_item_a :: TrackedItem where
  "ex_item_a =
     \<lparr>url = PStr ex_url_a, nickname = PStr ''Box'', last_status = PStr ''OutOfStock'',
      last_title = PStr ''Booster Box'', last_checked = PFloat 1700000000\<rparr>"

definition ex_item_b :: TrackedItem where
  "ex_item_b =
     \<lparr>url = PStr ex_url_b, nickname = PNone, last_status = PNone,
      last_title = PNone, last_checked = PNone\<rparr>"

definition ex_cfg :: BotConfig where
  "ex_cfg =
     \<lparr>interval_sec = 300, alert_channel_id = PInt 1234,
      items = [(ex_url_a, ex_item_a), (ex_url_b, ex_item_b)]\<rparr>"

definition ex_state :: state where
  "ex_state = \<lparr>cfg = ex_cfg, disk = Document (to_dict ex_cfg), outbox = []\<rparr>"


text \<open>A page without structured data whose text says that the product is in stock.\<close>

definition ex_page :: page where
  \<open>ex_page =
     \<lparr>source = ''<html><head><title>Booster Box</title></head><body><p>Op voorraad</p></body></html>'',
      ld_scripts = [],
      visible_text = ''Booster Box Op voorraad'',
      title_string = Some ''Booster Box''\<rparr>\<close>

text \<open>A page without structured data that carries an in-stock and an out-of-stock phrase.\<close>

definition ex_page_mixed :: page where
  \<open>ex_page_mixed =
     \<lparr>source = ''<html><body><p>Online op voorraad</p><p>Winkel: Uitverkocht</p></body></html>'',
      ld_scripts = [],
      visible_text = ''Online op voorraad Winkel: Uitverkocht'',
      title_string = None\<rparr>\<close>

text \<open>The turn of an item during which the page above is fetched and the alert is accepted.\<close>

definition ex_tick :: tick where
  "ex_tick =
     \<lparr>removals = [], fetched = Some ex_page, clock = 1700000300,
      channel_found = True, send_raises = False\<rparr>"

text \<open>The second item is removed by command while the first one is being checked.\<close>

definition world_removal :: "string \<Rightarrow> tick" where
  "world_removal u = (if u = ex_url_a then ex_tick\<lparr>removals := [ex_url_b]\<rparr> else ex_tick)"

text \<open>The alert channel refuses every message.\<close>

definition world_send_fails :: "string \<Rightarrow> tick" where
  "world_send_fails u = ex_tick\<lparr>send_raises := True\<rparr>"

text \<open>Every request fails.\<close>

definition world_offline :: "string \<Rightarrow> tick" where
  "world_offline u = ex_tick\<lparr>fetched := None\<rparr>"

text \<open>
  Four scripts, each with what the two patterns and \<^verbatim>\<open>json.loads\<close> report of its content.
  \<^verbatim>\<open>NAME_PATTERN\<close> starts with a word boundary before the quote of \<^verbatim>\<open>"name"\<close>, so it matches
  only where a letter, a digit or an underscore stands right before that quote.
  The first is an offer at the top level with a token outside the three known ones. The
  second lacks a comma, which \<^verbatim>\<open>json.loads\<close> refuses; the digit before \<^verbatim>\<open>"name"\<close> lets the name
  pattern match. The third and the fourth are products with an offer.
\<close>

definition ex_sc_sold_out :: script where
  \<open>ex_sc_sold_out =
     \<lparr>sc_string = Some ''{"@type":"Offer","availability":"https://schema.org/SoldOut"}'',
      sc_text = ''{"@type":"Offer","availability":"https://schema.org/SoldOut"}'',
      avail_found = Some ''https://schema.org/SoldOut'',
      name_found = None,
      loads = Some (LDict [(''@type'', LStr ''Offer''),
                           (''availability'', LStr ''https://schema.org/SoldOut'')])\<rparr>\<close>

definition ex_sc_broken :: script where
  \<open>ex_sc_broken =
     \<lparr>sc_string = Some ''{"availability":"Discontinued","sku":7"name":"Booster Box"}'',
      sc_text = ''{"availability":"Discontinued","sku":7"name":"Booster Box"}'',
      avail_found = Some ''Discontinued'',
      name_found = Some ''Booster Box'',
      loads = None\<rparr>\<close>

definition ex_sc_in_stock :: script where
  \<open>ex_sc_in_stock =
     \<lparr>sc_string = Some ''{"@type":"Product","name":"Booster Box","offers":{"availability":"https://schema.org/InStock"}}'',
      sc_text = ''{"@type":"Product","name":"Booster Box","offers":{"availability":"https://schema.org/InStock"}}'',
      avail_found = Some ''https://schema.org/InStock'',
      name_found = None,
      loads = Some (LDict [(''@type'', LStr ''Product''), (''name'', LStr ''Booster Box''),
                           (''offers'', LDict [(''availability'', LStr ''https://schema.org/InStock'')])])\<rparr>\<close>

definition ex_sc_limited :: script where
  \<open>ex_sc_limited =
     \<lparr>sc_string = Some ''{"@type":"Product","name":"Booster Box","offers":{"availability":"https://schema.org/LimitedAvailability"}}'',
      sc_text = ''{"@type":"Product","name":"Booster Box","offers":{"availability":"https://schema.org/LimitedAvailability"}}'',
      avail_found = Some ''https://schema.org/LimitedAvailability'',
      name_found = None,
      loads = Some (LDict [(''@type'', LStr ''Product''), (''name'', LStr ''Booster Box''),
                           (''offers'', LDict [(''availability'',
                                                LStr ''https://schema.org/LimitedAvailability'')])])\<rparr>\<close>

text \<open>The page that consists of the given scripts, with the out-of-stock phrase as its text.\<close>

definition ex_ld_page :: "script list \<Rightarrow> page" where
  \<open>ex_ld_page scs =
     \<lparr>source = concat (map (\<lambda>sc. ''<script type="application/ld+json">'' @ script_content sc
                                  @ ''</script>'') scs) @ ''<p>Uitverkocht</p>'',
      ld_scripts = scs,
      visible_text = ''Uitverkocht'',
      title_string = None\<rparr>\<close>

section \<open>Properties of the persisted state\<close>

lemma TrackedItem_kw_asdict: "TrackedItem_kw (asdict it) = Inr it"
  by (simp add: asdict_def field_names_def dict_get_def)

lemma from_items_asdict:
  "from_items (map (\<lambda>(u, it). (u, asdict it)) its) = Inr its"
  by (induction its) (auto simp: TrackedItem_kw_asdict)

lemma py_or_dict_empty: "py_or (PDict kvs) (PDict []) = PDict kvs"
  by (cases kvs) (simp_all add: py_or_def)

lemma from_dict_to_dict: "from_dict (to_dict c) = Inr c"
  by (simp add: to_dict_def dict_get_def py_or_dict_empty from_items_asdict)

lemma first_error_None: "first_error vs = None \<longleftrightarrow> list_all (\<lambda>a. atom_error a = None) vs"
  by (induction vs) (auto split: option.splits)

lemma dump_error_writable: "dump_error v = None \<longleftrightarrow> writable v"
  by (simp add: dump_error_def writable_def first_error_None)

lemma oversized_atom_error: "oversized a \<Longrightarrow> atom_error a \<noteq> None"
  by (cases a) (simp_all add: atom_error_def oversized_def)

lemma writable_not_oversized: "writable v \<Longrightarrow> \<not> list_ex oversized (atoms v)"
proof
  assume w: "writable v" and ex: "list_ex oversized (atoms v)"
  from ex obtain a where a: "a \<in> set (atoms v)" and big: "oversized a"
    by (auto simp: list_ex_iff)
  from w a have "atom_error a = None"
    by (simp add: writable_def list_all_iff)
  with big oversized_atom_error show False
    by blast
qed

lemma load_state_Document:
  "writable (to_dict c) \<Longrightarrow> load_state (Document (to_dict c)) = Inr c"
  by (simp add: load_state_def path_exists_def from_dict_to_dict writable_not_oversized)




text \<open>
  C9. Whatever the state file is, \<^verbatim>\<open>load_state\<close> returns a configuration and raises nothing.
  It returns the default empty configuration when the file is missing, when it cannot be
  read, when its content is not a JSON document, and when the document has a shape that
  \<^verbatim>\<open>from_dict\<close> refuses.
\<close>

theorem load_state_never_fails:
  "(\<exists>c. load_state f = Inr c)
   \<and> load_state Missing = Inr BotConfig_empty
   \<and> load_state Unreadable = Inr BotConfig_empty
   \<and> load_state (Garbage t) = Inr BotConfig_empty
   \<and> load_state (Partial v n) = Inr BotConfig_empty
   \<and> (from_dict v = Inl e \<longrightarrow> load_state (Document v) = Inr BotConfig_empty)"
  by (cases f) (auto simp: load_state_def path_exists_def split: sum.splits if_splits)

theorem load_state_never_fails_witness:
  "from_dict (PList []) = Inl AttributeError
   \<and> load_state (Document (PList [])) = Inr BotConfig_empty
   \<and> load_state (Garbage ''{'') = Inr BotConfig_empty"
  using load_state_never_fails
    [where f = "Document (PList [])" and v = "PList []" and e = AttributeError and t = "''{''"]
  by simp

text \<open>
  C3, as the code has it. \<^verbatim>\<open>save_state\<close> writes in place: it opens the state file itself
  for writing, which truncates it, and dumps the full serialisation into it; there is no
  temporary file and no replace. A call that stops before the open leaves the file as it
  was. A call that stops after the open, before the dump is complete, leaves a truncated
  file, from which \<^verbatim>\<open>load_state\<close> returns the default empty configuration. A call that
  completes leaves the file holding the configuration, which loads back unchanged.
\<close>

theorem save_state_in_place:
  "save_state_upto BeforeOpen c f = f
   \<and> save_state_upto (Written n) c f = Partial (to_dict c) n
   \<and> load_state (save_state_upto (Written n) c f) = Inr BotConfig_empty
   \<and> (save_state c f = Inr f' \<longrightarrow> f' = Document (to_dict c) \<and> load_state f' = Inr c)
   \<and> (writable (to_dict c) \<longrightarrow> save_state c f = Inr (Document (to_dict c)))"
proof -
  have completes: "f' = Document (to_dict c) \<and> load_state f' = Inr c"
    if run: "save_state c f = Inr f'"
  proof -
    from run have ok: "dump_error (to_dict c) = None" and held: "f' = Document (to_dict c)"
      by (auto simp: save_state_def split: option.splits)
    from ok have "writable (to_dict c)"
      by (simp add: dump_error_writable)
    then show ?thesis using held load_state_Document by simp
  qed
  have "save_state c f = Inr (Document (to_dict c))" if w: "writable (to_dict c)"
  proof -
    from w have "dump_error (to_dict c) = None"
      by (simp add: dump_error_writable)
    then show ?thesis
      by (simp add: save_state_def)
  qed
  with completes show ?thesis
    by (simp add: load_state_def path_exists_def)
qed

theorem save_state_in_place_witness:
  "save_state_upto (Written 0) (ex_cfg\<lparr>interval_sec := 600\<rparr>) (Document (to_dict ex_cfg)) =
     Partial (to_dict (ex_cfg\<lparr>interval_sec := 600\<rparr>)) 0
   \<and> load_state (save_state_upto (Written 0) (ex_cfg\<lparr>interval_sec := 600\<rparr>)
        (Document (to_dict ex_cfg))) = Inr BotConfig_empty
   \<and> writable (to_dict (ex_cfg\<lparr>interval_sec := 600\<rparr>))
   \<and> save_state (ex_cfg\<lparr>interval_sec := 600\<rparr>) (Document (to_dict ex_cfg)) =
       Inr (Document (to_dict (ex_cfg\<lparr>interval_sec := 600\<rparr>)))
   \<and> load_state (Document (to_dict (ex_cfg\<lparr>interval_sec := 600\<rparr>))) =
       Inr (ex_cfg\<lparr>interval_sec := 600\<rparr>)"
proof -
  let ?c = "ex_cfg\<lparr>interval_sec := 600\<rparr>"
  let ?f = "Document (to_dict ex_cfg)"
  note inst = save_state_in_place
    [where n = 0 and c = ?c and f = ?f and f' = "Document (to_dict ?c)"]
  have w: "writable (to_dict ?c)"
    by code_simp
  with inst have saved: "save_state ?c ?f = Inr (Document (to_dict ?c))"
    by blast
  with inst have "load_state (Document (to_dict ?c)) = Inr ?c"
    by blast
  with inst w saved show ?thesis by simp
qed

text \<open>
  The claim C3 as stated fails: the file holds the example configuration, the interval is
  set to ten minutes, and the process stops after the open of the save that follows. The
  file is no longer the one that was there, and loading it gives the default configuration
  instead of the two tracked items.
\<close>

theorem save_state_not_atomic:
  "load_state (Document (to_dict ex_cfg)) = Inr ex_cfg
   \<and> save_state_upto (Written 0) (ex_cfg\<lparr>interval_sec := 600\<rparr>) (Document (to_dict ex_cfg))
       \<noteq> Document (to_dict ex_cfg)
   \<and> load_state (save_state_upto (Written 0) (ex_cfg\<lparr>interval_sec := 600\<rparr>)
        (Document (to_dict ex_cfg))) = Inr BotConfig_empty
   \<and> Inr BotConfig_empty \<noteq> (Inr ex_cfg :: exn + BotConfig)"
proof -
  have "writable (to_dict ex_cfg)"
    by code_simp
  then have "load_state (Document (to_dict ex_cfg)) = Inr ex_cfg"
    by (rule load_state_Document)
  then show ?thesis
    by (simp add: load_state_def path_exists_def ex_cfg_def BotConfig_empty_def)
qed

section \<open>Properties of the status extraction\<close>

lemma fast_path_token:
  "fast_path sc =
     (case avail_found sc of
        None \<Rightarrow> None
      | Some tok \<Rightarrow>
          if token_status tok = ''Unknown'' then None
          else Some (Some (token_status tok), name_found sc))"
  by (simp add: fast_path_def token_status_def Let_def split: option.splits)

lemma json_path_token:
  "json_path sc =
     (case loads sc of
        None \<Rightarrow> None
      | Some d \<Rightarrow>
          (case extract_offer d of
             None \<Rightarrow> None
           | Some (tok, nm) \<Rightarrow> Some (Some (token_status tok), nm)))"
  by (simp add: json_path_def token_status_def Let_def split: option.splits)

lemma scan_scripts_skip:
  "scan_scripts pre = (None, None) \<Longrightarrow> scan_scripts (pre @ rest) = scan_scripts rest"
proof (induction pre)
  case Nil
  then show ?case by simp
next
  case (Cons sc pre)
  then show ?case
    by (auto simp: fast_path_token json_path_token split: if_splits option.splits)
qed

text \<open>
  C6, as the code has it. Take a script with content that the scan reaches, every earlier
  script having yielded nothing. If the fast pattern finds a token that normalises, without
  regard to case and in the order instock, outofstock, preorder or pre-order, to InStock,
  OutOfStock or PreOrder, the result is that status with the name the name pattern
  captured, and no later script is consulted. Otherwise, if the script parses as JSON and
  the search finds an availability string under \<^verbatim>\<open>offers\<close>, the result is the normalisation
  of that string, Unknown when it is none of the three, with the name beside the offers,
  and no later script is consulted. Otherwise the script yields nothing, also when the fast
  pattern had found a token and a name, and the scan goes on with the next script. A result
  InStock of this stage is the status of the check, whatever the text of the page says.
\<close>

theorem structured_data_normalisation:
  assumes "scan_scripts pre = (None, None)"
    and "ld_scripts p = pre @ sc # post"
    and "script_content sc \<noteq> []"
  shows "(avail_found sc = Some tok \<and> token_status tok \<noteq> ''Unknown'' \<longrightarrow>
            parse_jsonld_availability p = (Some (token_status tok), name_found sc))
       \<and> (fast_inconclusive sc \<and> loads sc = Some d \<and> extract_offer d = Some (tok', nm) \<longrightarrow>
            parse_jsonld_availability p = (Some (token_status tok'), nm))
       \<and> (fast_inconclusive sc \<and>
            (loads sc = None \<or> (\<exists>d'. loads sc = Some d' \<and> extract_offer d' = None)) \<longrightarrow>
            parse_jsonld_availability p = scan_scripts post)
       \<and> (source p \<noteq> [] \<and> fst (parse_jsonld_availability p) = Some ''InStock'' \<longrightarrow>
            fst (check_url (Some p)) = ''InStock'')"
proof -
  have step: "parse_jsonld_availability p = scan_scripts (sc # post)"
    using assms(1,2) by (simp add: parse_jsonld_availability_def scan_scripts_skip)
  have recognised: "avail_found sc = Some tok \<and> token_status tok \<noteq> ''Unknown'' \<longrightarrow>
            parse_jsonld_availability p = (Some (token_status tok), name_found sc)"
    using assms(3) by (simp add: step fast_path_token)
  have parsed: "fast_inconclusive sc \<and> loads sc = Some d \<and> extract_offer d = Some (tok', nm) \<longrightarrow>
            parse_jsonld_availability p = (Some (token_status tok'), nm)"
    using assms(3)
    by (auto simp: step fast_path_token json_path_token fast_inconclusive_def split: option.splits)
  have skipped: "fast_inconclusive sc \<and>
            (loads sc = None \<or> (\<exists>d'. loads sc = Some d' \<and> extract_offer d' = None)) \<longrightarrow>
            parse_jsonld_availability p = scan_scripts post"
    using assms(3)
    by (auto simp: step fast_path_token json_path_token fast_inconclusive_def split: option.splits)
  have kept: "source p \<noteq> [] \<and> fst (parse_jsonld_availability p) = Some ''InStock'' \<longrightarrow>
            fst (check_url (Some p)) = ''InStock''"
    by (auto simp: check_url_def Let_def split: prod.splits option.splits)
  from recognised parsed skipped kept show ?thesis by blast
qed

theorem structured_data_normalisation_witness:
  "scan_scripts [ex_sc_sold_out] = (None, None)
   \<and> parse_jsonld_availability (ex_ld_page [ex_sc_sold_out, ex_sc_in_stock, ex_sc_limited]) =
       (Some ''InStock'', None)
   \<and> parse_jsonld_availability (ex_ld_page [ex_sc_sold_out, ex_sc_limited, ex_sc_in_stock]) =
       (Some ''Unknown'', Some ''Booster Box'')
   \<and> parse_jsonld_availability (ex_ld_page [ex_sc_sold_out, ex_sc_broken, ex_sc_in_stock]) =
       scan_scripts [ex_sc_in_stock]
   \<and> fst (check_url (Some (ex_ld_page [ex_sc_sold_out, ex_sc_in_stock, ex_sc_limited]))) =
       ''InStock''"
proof -
  let ?p1 = "ex_ld_page [ex_sc_sold_out, ex_sc_in_stock, ex_sc_limited]"
  let ?p2 = "ex_ld_page [ex_sc_sold_out, ex_sc_limited, ex_sc_in_stock]"
  let ?p3 = "ex_ld_page [ex_sc_sold_out, ex_sc_broken, ex_sc_in_stock]"
  have pre: "scan_scripts [ex_sc_sold_out] = (None, None)"
    by code_simp
  have l1: "ld_scripts ?p1 = [ex_sc_sold_out] @ ex_sc_in_stock # [ex_sc_limited]"
    and l2: "ld_scripts ?p2 = [ex_sc_sold_out] @ ex_sc_limited # [ex_sc_in_stock]"
    and l3: "ld_scripts ?p3 = [ex_sc_sold_out] @ ex_sc_broken # [ex_sc_in_stock]"
    by (simp_all add: ex_ld_page_def)
  have c1: "script_content ex_sc_in_stock \<noteq> []"
    and c2: "script_content ex_sc_limited \<noteq> []"
    and c3: "script_content ex_sc_broken \<noteq> []"
    by (simp_all add: script_content_def ex_sc_in_stock_def ex_sc_limited_def ex_sc_broken_def)
  have h1: "avail_found ex_sc_in_stock = Some ''https://schema.org/InStock''"
    and t1: "token_status ''https://schema.org/InStock'' = ''InStock''"
    and n1: "name_found ex_sc_in_stock = None"
    by code_simp+
  have h2: "fast_inconclusive ex_sc_limited"
    and d2: "loads ex_sc_limited =
      Some (LDict [(''@type'', LStr ''Product''), (''name'', LStr ''Booster Box''),
                   (''offers'', LDict [(''availability'',
                                        LStr ''https://schema.org/LimitedAvailability'')])])"
    and e2: "extract_offer
      (LDict [(''@type'', LStr ''Product''), (''name'', LStr ''Booster Box''),
              (''offers'', LDict [(''availability'',
                                   LStr ''https://schema.org/LimitedAvailability'')])]) =
      Some (''https://schema.org/LimitedAvailability'', Some ''Booster Box'')"
    and t2: "token_status ''https://schema.org/LimitedAvailability'' = ''Unknown''"
    by code_simp+
  have h3: "fast_inconclusive ex_sc_broken" and d3: "loads ex_sc_broken = None"
    by code_simp+
  have s1: "source ?p1 \<noteq> []"
    by (simp add: ex_ld_page_def)
  have "token_status ''https://schema.org/InStock'' \<noteq> ''Unknown''"
    by (simp add: t1)
  then have "parse_jsonld_availability ?p1 =
      (Some (token_status ''https://schema.org/InStock''), name_found ex_sc_in_stock)"
    using structured_data_normalisation [OF pre l1 c1] h1 by blast
  then have r1: "parse_jsonld_availability ?p1 = (Some ''InStock'', None)"
    by (simp only: t1 n1)
  have "parse_jsonld_availability ?p2 =
      (Some (token_status ''https://schema.org/LimitedAvailability''), Some ''Booster Box'')"
    using structured_data_normalisation [OF pre l2 c2] h2 d2 e2 by blast
  then have r2: "parse_jsonld_availability ?p2 = (Some ''Unknown'', Some ''Booster Box'')"
    by (simp only: t2)
  have r3: "parse_jsonld_availability ?p3 = scan_scripts [ex_sc_in_stock]"
    using structured_data_normalisation [OF pre l3 c3] h3 d3 by blast
  have "fst (parse_jsonld_availability ?p1) = Some ''InStock''"
    by (simp only: r1 fst_conv)
  then have r4: "fst (check_url (Some ?p1)) = ''InStock''"
    using structured_data_normalisation [OF pre l1 c1] s1 by blast
  from pre r1 r2 r3 r4 show ?thesis by simp
qed

text \<open>
  The claim C6 as stated fails. In the second example script the fast pattern finds the
  token Discontinued and the name pattern finds a name, and the script does not parse; in
  the first the token is SoldOut and the script, an offer at the top level, parses but has
  no \<^verbatim>\<open>offers\<close>. Both tokens normalise to Unknown, yet the stage yields no status and no
  name for either script, and with an in-stock script behind the broken one the result is
  taken from that later script.
\<close>

theorem unrecognised_token_not_unknown:
  "avail_found ex_sc_broken = Some ''Discontinued''
   \<and> name_found ex_sc_broken = Some ''Booster Box''
   \<and> token_status ''Discontinued'' = ''Unknown''
   \<and> parse_jsonld_availability (ex_ld_page [ex_sc_broken]) = (None, None)
   \<and> parse_jsonld_availability (ex_ld_page [ex_sc_broken, ex_sc_in_stock]) =
       (Some ''InStock'', None)
   \<and> avail_found ex_sc_sold_out = Some ''https://schema.org/SoldOut''
   \<and> token_status ''https://schema.org/SoldOut'' = ''Unknown''
   \<and> parse_jsonld_availability (ex_ld_page [ex_sc_sold_out]) = (None, None)"
  by code_simp

text \<open>
  C7. The keyword stage tests the visible text in lower case against the in-stock phrases,
  then the out-of-stock phrases, then the pre-order phrases; the first list with a phrase in
  the text decides, so a text with an in-stock and an out-of-stock phrase gives InStock, and
  a text with none gives Unknown. The stage decides the status of the check whenever the
  structured data gave no status or Unknown.
\<close>

theorem keyword_fallback_priority:
  "keyword_status_fallback p =
     (if \<exists>w\<in>set IN_STOCK_KEYWORDS. sublist w (lower (visible_text p)) then ''InStock''
      else if \<exists>w\<in>set OUT_STOCK_KEYWORDS. sublist w (lower (visible_text p)) then ''OutOfStock''
      else if \<exists>w\<in>set PREORDER_KEYWORDS. sublist w (lower (visible_text p)) then ''PreOrder''
      else ''Unknown'')
   \<and> (source p \<noteq> [] \<longrightarrow>
        fst (parse_jsonld_availability p) = None \<or>
        fst (parse_jsonld_availability p) = Some ''Unknown'' \<longrightarrow>
        fst (check_url (Some p)) = keyword_status_fallback p)"
proof -
  have "fst (check_url (Some p)) = keyword_status_fallback p"
    if "source p \<noteq> []"
      and "fst (parse_jsonld_availability p) = None \<or>
           fst (parse_jsonld_availability p) = Some ''Unknown''"
    using that by (auto simp: check_url_def Let_def split: prod.splits option.splits)
  then show ?thesis
    by (simp add: keyword_status_fallback_def any_kw_def Let_def list_ex_iff)
qed

theorem keyword_fallback_priority_witness:
  "sublist ''op voorraad'' (lower (visible_text ex_page_mixed))
   \<and> sublist ''uitverkocht'' (lower (visible_text ex_page_mixed))
   \<and> keyword_status_fallback ex_page_mixed = ''InStock''
   \<and> fst (check_url (Some ex_page_mixed)) = ''InStock''"
proof -
  have src: "source ex_page_mixed \<noteq> []"
    by (simp add: ex_page_mixed_def)
  have none: "fst (parse_jsonld_availability ex_page_mixed) = None"
    by code_simp
  have both: "sublist ''op voorraad'' (lower (visible_text ex_page_mixed))"
    "sublist ''uitverkocht'' (lower (visible_text ex_page_mixed))"
    by code_simp+
  have mem: "''op voorraad'' \<in> set IN_STOCK_KEYWORDS"
    by (simp add: IN_STOCK_KEYWORDS_def)
  have kw: "keyword_status_fallback ex_page_mixed = ''InStock''"
    using keyword_fallback_priority [of ex_page_mixed] both(1) mem by auto
  have "fst (check_url (Some ex_page_mixed)) = keyword_status_fallback ex_page_mixed"
    using keyword_fallback_priority [of ex_page_mixed] src none by blast
  with kw both show ?thesis by simp
qed

section \<open>Properties of the sweep\<close>

text \<open>
  C2. With the status the check gives, the loop calls \<^verbatim>\<open>send_alert\<close> exactly when the item
  has no status on record and the new status is InStock, or it has one and the new status
  differs from it. In the first case the previous status passed to the call is \<^verbatim>\<open>None\<close>,
  which the message shows as Unknown.
\<close>

theorem change_detector_rule:
  "check_url (fetched tk) = (new, title) \<Longrightarrow>
   (snd (observe tk item) \<noteq> None) =
     ((last_status item = PNone \<and> new = ''InStock'') \<or>
      (last_status item \<noteq> PNone \<and> PStr new \<noteq> last_status item))
   \<and> (last_status item = PNone \<longrightarrow> new = ''InStock'' \<longrightarrow>
        (\<exists>t. snd (observe tk item) = Some (t, PNone, new)))"
  by (auto simp: observe_def Let_def split: prod.splits if_splits)

theorem change_detector_rule_witness:
  "check_url (fetched ex_tick) = (''InStock'', Some ''Booster Box'')
   \<and> last_status ex_item_b = PNone
   \<and> (\<exists>t. snd (observe ex_tick ex_item_b) = Some (t, PNone, ''InStock''))
   \<and> last_status ex_item_a = PStr ''OutOfStock''
   \<and> snd (observe ex_tick ex_item_a) \<noteq> None
   \<and> snd (observe ex_tick (ex_item_a\<lparr>last_status := PStr ''InStock''\<rparr>)) = None"
proof -
  have c: "check_url (fetched ex_tick) = (''InStock'', Some ''Booster Box'')"
    by code_simp
  have b: "last_status ex_item_b = PNone"
    and a: "last_status ex_item_a = PStr ''OutOfStock''"
    and a': "last_status (ex_item_a\<lparr>last_status := PStr ''InStock''\<rparr>) = PStr ''InStock''"
    by (simp_all add: ex_item_a_def ex_item_b_def)
  have first: "\<exists>t. snd (observe ex_tick ex_item_b) = Some (t, PNone, ''InStock'')"
    using change_detector_rule [OF c, of ex_item_b] b by blast
  have changed: "snd (observe ex_tick ex_item_a) \<noteq> None"
    using change_detector_rule [OF c, of ex_item_a] a by simp
  have "\<not> snd (observe ex_tick (ex_item_a\<lparr>last_status := PStr ''InStock''\<rparr>)) \<noteq> None"
    by (simp only: conjunct1 [OF change_detector_rule [OF c]] a') simp
  then have same: "snd (observe ex_tick (ex_item_a\<lparr>last_status := PStr ''InStock''\<rparr>)) = None"
    by blast
  from c b first a changed same show ?thesis by blast
qed

text \<open>
  Once an item has a status on record, the previous status passed to \<^verbatim>\<open>send_alert\<close> is the
  new status: the call reads \<^verbatim>\<open>item.last_status\<close> after the loop has assigned to it.
\<close>

lemma observe_reports_new_as_old:
  "snd (observe tk item) = Some (t, old, new) \<Longrightarrow> last_status item \<noteq> PNone \<Longrightarrow>
   old = PStr new \<and> new = fst (check_url (fetched tk))"
  by (auto simp: observe_def Let_def split: prod.splits if_splits)

text \<open>
  C1, at an input where the code departs from it. The first example item is on record as
  OutOfStock and its page now says that it is in stock. The alert is sent, and it names
  InStock both as the previous and as the new status; the stored OutOfStock is not in it.
\<close>

theorem alert_reports_new_status_as_previous:
  "last_status ex_item_a = PStr ''OutOfStock''
   \<and> check_url (fetched ex_tick) = (''InStock'', Some ''Booster Box'')
   \<and> snd (observe ex_tick ex_item_a) = Some (PStr ''Booster Box'', PStr ''InStock'', ''InStock'')
   \<and> (case sweep_item ex_tick (ex_url_a, ex_item_a) ex_state of
        Inl failure \<Rightarrow> []
      | Inr s' \<Rightarrow> outbox s') =
       [\<lparr>m_name = PStr ''Booster Box'', m_old = PStr ''InStock'', m_new = ''InStock'',
         m_link = ex_url_a\<rparr>]"
  by code_simp

lemma update_entries:
  "(k, x) \<in> set (AList.update u v al) \<Longrightarrow> (k, x) = (u, v) \<or> (k, x) \<in> set al"
  by (induction al) (auto split: if_splits)

lemma delete_entries: "(a, b) \<in> set (AList.delete k al) \<Longrightarrow> (a, b) \<in> set al"
  by (auto simp: AList.delete_eq)

lemma pop_and_save_entries:
  "pop_and_save u ident s = Inr (s', r) \<or> pop_and_save u ident s = Inl (e, s') \<Longrightarrow>
   set (items (cfg s')) \<subseteq> set (items (cfg s))"
  by (auto simp: pop_and_save_def Let_def split: sum.splits prod.splits dest: delete_entries)

lemma track_remove_entries:
  "track_remove ident s = Inr (s', r) \<or> track_remove ident s = Inl (e, s') \<Longrightarrow>
   set (items (cfg s')) \<subseteq> set (items (cfg s))"
  using pop_and_save_entries [of _ ident s s' r e]
  by (auto simp: track_remove_def split: if_splits sum.splits option.splits)

lemma control_plane_entries:
  "set (items (cfg (control_plane idents s))) \<subseteq> set (items (cfg s))"
proof (induction idents arbitrary: s)
  case Nil
  then show ?case by simp
next
  case (Cons ident idents)
  show ?case
  proof (cases "track_remove ident s")
    case (Inl failure)
    obtain e s1 where failure: "failure = (e, s1)" by (cases failure)
    have "set (items (cfg s1)) \<subseteq> set (items (cfg s))"
      using Inl failure track_remove_entries by blast
    moreover have "set (items (cfg (control_plane idents s1))) \<subseteq> set (items (cfg s1))"
      by (rule Cons.IH)
    ultimately show ?thesis using Inl failure by auto
  next
    case (Inr res)
    obtain s1 r where res: "res = (s1, r)" by (cases res)
    have "set (items (cfg s1)) \<subseteq> set (items (cfg s))"
      using Inr res track_remove_entries by blast
    moreover have "set (items (cfg (control_plane idents s1))) \<subseteq> set (items (cfg s1))"
      by (rule Cons.IH)
    ultimately show ?thesis using Inr res by auto
  qed
qed

lemma send_alert_cfg: "send_alert tk u t old new s = Inr s' \<Longrightarrow> cfg s' = cfg s"
  by (auto simp: send_alert_def Let_def split: if_splits)

lemma sweep_item_items:
  "sweep_item tk (u, item) s = Inr s' \<or> sweep_item tk (u, item) s = Inl (e, s') \<Longrightarrow>
   items (cfg s') = AList.update u (fst (observe tk item)) (items (cfg s))"
  by (auto simp: sweep_item_def Let_def split: prod.splits option.splits sum.splits
           dest: send_alert_cfg)

lemma observe_title_kept:
  "last_title item \<noteq> PNone \<Longrightarrow> last_title (fst (observe tk item)) \<noteq> PNone"
  by (auto simp: observe_def Let_def py_or_def opt_str_def split: prod.splits option.splits)

lemma observe_title_retained:
  "snd (check_url (fetched tk)) = None \<or> snd (check_url (fetched tk)) = Some [] \<Longrightarrow>
   last_title (fst (observe tk item)) = last_title item"
  by (auto simp: observe_def Let_def py_or_def opt_str_def split: prod.splits option.splits)

lemma sweep_items_titled:
  "sweep_items world snap s = Inr s' \<or> sweep_items world snap s = Inl (e, s') \<Longrightarrow>
   (\<And>it. (u, it) \<in> set snap \<Longrightarrow> last_title it \<noteq> PNone) \<Longrightarrow>
   (\<And>it. (u, it) \<in> set (items (cfg s)) \<Longrightarrow> last_title it \<noteq> PNone) \<Longrightarrow>
   (u, it') \<in> set (items (cfg s')) \<Longrightarrow> last_title it' \<noteq> PNone"
proof (induction snap arbitrary: s)
  case Nil
  then show ?case by auto
next
  case (Cons entry snap)
  obtain k item where entry: "entry = (k, item)" by (cases entry)
  let ?s1 = "control_plane (removals (world k)) s"
  have s1: "\<And>it. (u, it) \<in> set (items (cfg ?s1)) \<Longrightarrow> last_title it \<noteq> PNone"
    using Cons.prems(3) control_plane_entries by blast
  have stored: "last_title it \<noteq> PNone"
    if st: "items (cfg s2) = AList.update k (fst (observe (world k) item)) (items (cfg ?s1))"
      and mem: "(u, it) \<in> set (items (cfg s2))" for s2 it
  proof -
    from mem st update_entries
    have "(u, it) = (k, fst (observe (world k) item)) \<or> (u, it) \<in> set (items (cfg ?s1))"
      by metis
    then show ?thesis
    proof
      assume eq: "(u, it) = (k, fst (observe (world k) item))"
      then have "(u, item) \<in> set (entry # snap)" using entry by simp
      then have "last_title item \<noteq> PNone" by (rule Cons.prems(2))
      then show ?thesis using eq observe_title_kept by simp
    next
      assume "(u, it) \<in> set (items (cfg ?s1))"
      then show ?thesis by (rule s1)
    qed
  qed
  show ?case
  proof (cases "sweep_item (world k) (k, item) ?s1")
    case (Inl failure)
    then have "failure = (e, s')" using Cons.prems(1) entry by simp
    then have "items (cfg s') = AList.update k (fst (observe (world k) item)) (items (cfg ?s1))"
      using Inl sweep_item_items by blast
    then show ?thesis using stored Cons.prems(4) by blast
  next
    case (Inr s2)
    then have rest: "sweep_items world snap s2 = Inr s' \<or> sweep_items world snap s2 = Inl (e, s')"
      using Cons.prems(1) entry by simp
    have "items (cfg s2) = AList.update k (fst (observe (world k) item)) (items (cfg ?s1))"
      using Inr sweep_item_items by blast
    then have s2: "\<And>it. (u, it) \<in> set (items (cfg s2)) \<Longrightarrow> last_title it \<noteq> PNone"
      using stored by blast
    show ?thesis
      using Cons.IH [OF rest _ s2 Cons.prems(4)] Cons.prems(2) by simp
  qed
qed

text \<open>
  C10. When the check yields no title, or an empty one, the update of the sweep leaves
  \<^verbatim>\<open>last_title\<close> as it was; a failed request is such a check, with status Unknown. A
  \<^verbatim>\<open>last_title\<close> other than \<^verbatim>\<open>None\<close> is never replaced by \<^verbatim>\<open>None\<close>: not by the update of one
  item, which is what the sweep stores under the URL, and not by a whole sweep, whether it
  runs to its end or is ended by an exception, and whatever is removed while it runs.
\<close>

theorem last_title_never_cleared:
  "(snd (check_url (fetched tk)) = None \<or> snd (check_url (fetched tk)) = Some [] \<longrightarrow>
      last_title (fst (observe tk item)) = last_title item)
   \<and> (fetched tk = None \<longrightarrow>
        check_url (fetched tk) = (''Unknown'', None) \<and>
        last_title (fst (observe tk item)) = last_title item)
   \<and> (last_title item \<noteq> PNone \<longrightarrow> last_title (fst (observe tk item)) \<noteq> PNone)
   \<and> (sweep_item tk (u, item) s = Inr s' \<longrightarrow>
        map_of (items (cfg s')) u = Some (fst (observe tk item)))
   \<and> ((sweep world s0 = Inr s1 \<or> sweep world s0 = Inl (e, s1)) \<and>
        (\<forall>it. (k, it) \<in> set (items (cfg s0)) \<longrightarrow> last_title it \<noteq> PNone) \<longrightarrow>
        (\<forall>it. (k, it) \<in> set (items (cfg s1)) \<longrightarrow> last_title it \<noteq> PNone))"
proof -
  have retained: "snd (check_url (fetched tk)) = None \<or> snd (check_url (fetched tk)) = Some [] \<longrightarrow>
      last_title (fst (observe tk item)) = last_title item"
    using observe_title_retained by blast
  have failed: "fetched tk = None \<longrightarrow>
        check_url (fetched tk) = (''Unknown'', None) \<and>
        last_title (fst (observe tk item)) = last_title item"
  proof
    assume none: "fetched tk = None"
    then have c: "check_url (fetched tk) = (''Unknown'', None)"
      by (simp add: check_url_def)
    then have "snd (check_url (fetched tk)) = None" by simp
    then show "check_url (fetched tk) = (''Unknown'', None) \<and>
        last_title (fst (observe tk item)) = last_title item"
      using c observe_title_retained by blast
  qed
  have kept: "last_title item \<noteq> PNone \<longrightarrow> last_title (fst (observe tk item)) \<noteq> PNone"
    using observe_title_kept by blast
  have stored: "sweep_item tk (u, item) s = Inr s' \<longrightarrow>
        map_of (items (cfg s')) u = Some (fst (observe tk item))"
  proof
    assume "sweep_item tk (u, item) s = Inr s'"
    then have "items (cfg s') = AList.update u (fst (observe tk item)) (items (cfg s))"
      using sweep_item_items by blast
    then show "map_of (items (cfg s')) u = Some (fst (observe tk item))"
      by (simp add: AList.update_conv')
  qed
  have whole: "(sweep world s0 = Inr s1 \<or> sweep world s0 = Inl (e, s1)) \<and>
        (\<forall>it. (k, it) \<in> set (items (cfg s0)) \<longrightarrow> last_title it \<noteq> PNone) \<longrightarrow>
        (\<forall>it. (k, it) \<in> set (items (cfg s1)) \<longrightarrow> last_title it \<noteq> PNone)"
  proof (intro impI allI, elim conjE)
    fix it
    assume run: "sweep world s0 = Inr s1 \<or> sweep world s0 = Inl (e, s1)"
      and before: "\<forall>it. (k, it) \<in> set (items (cfg s0)) \<longrightarrow> last_title it \<noteq> PNone"
      and mem: "(k, it) \<in> set (items (cfg s1))"
    from run have "sweep_items world (items (cfg s0)) s0 = Inr s1 \<or>
        sweep_items world (items (cfg s0)) s0 = Inl (e, s1)"
      by (simp add: sweep_def)
    then show "last_title it \<noteq> PNone"
      using before mem sweep_items_titled [of world "items (cfg s0)" s0 s1 e k it] by blast
  qed
  from retained failed kept stored whole show ?thesis by blast
qed

theorem last_title_never_cleared_witness:
  "fetched (world_offline ex_url_a) = None
   \<and> check_url (fetched (world_offline ex_url_a)) = (''Unknown'', None)
   \<and> last_title ex_item_a = PStr ''Booster Box''
   \<and> last_title (fst (observe (world_offline ex_url_a) ex_item_a)) = PStr ''Booster Box''
   \<and> (case sweep world_offline ex_state of
        Inl failure \<Rightarrow> []
      | Inr s1 \<Rightarrow> map (\<lambda>(u, it). (u, last_status it, last_title it)) (items (cfg s1))) =
       [(ex_url_a, PStr ''Unknown'', PStr ''Booster Box''), (ex_url_b, PStr ''Unknown'', PNone)]"
proof -
  have off: "fetched (world_offline ex_url_a) = None"
    by (simp add: world_offline_def)
  have t: "last_title ex_item_a = PStr ''Booster Box''"
    by (simp add: ex_item_a_def)
  from last_title_never_cleared [of "world_offline ex_url_a" ex_item_a] off
  have c: "check_url (fetched (world_offline ex_url_a)) = (''Unknown'', None)"
    and r: "last_title (fst (observe (world_offline ex_url_a) ex_item_a)) = last_title ex_item_a"
    by blast+
  have run: "(case sweep world_offline ex_state of
        Inl failure \<Rightarrow> []
      | Inr s1 \<Rightarrow> map (\<lambda>(u, it). (u, last_status it, last_title it)) (items (cfg s1))) =
       [(ex_url_a, PStr ''Unknown'', PStr ''Booster Box''), (ex_url_b, PStr ''Unknown'', PNone)]"
    by code_simp
  from off c t r run show ?thesis by simp
qed

text \<open>
  C4, at an input where the code departs from it. Two items are tracked; while the first
  is being checked, a command removes the second, and the configuration then holds the
  first alone. The sweep goes on over the items it started with: when the turn of the
  second comes it is checked, stored again under its URL, saved to the state file, and an
  alert is sent for it. After the sweep it is tracked as before.
\<close>

theorem removed_item_written_back:
  "map fst (items (cfg (control_plane [ex_url_b] ex_state))) = [ex_url_a]
   \<and> (case sweep world_removal ex_state of
        Inl failure \<Rightarrow> []
      | Inr s' \<Rightarrow> map (\<lambda>(u, it). (u, last_status it, last_checked it)) (items (cfg s'))) =
       [(ex_url_a, PStr ''InStock'', PFloat 1700000300),
        (ex_url_b, PStr ''InStock'', PFloat 1700000300)]
   \<and> (case sweep world_removal ex_state of
        Inl failure \<Rightarrow> False
      | Inr s' \<Rightarrow> disk s' = Document (to_dict (cfg s')) \<and>
                  map m_link (outbox s') = [ex_url_a, ex_url_b])"
  by code_simp

text \<open>
  C5, at an input where the code departs from it. The alert channel is set and found, and
  the send raises. The exception leaves \<^verbatim>\<open>send_alert\<close> and the loop: the sweep ends at the
  first item, and the second item is never checked.
\<close>

theorem send_failure_ends_sweep:
  "(case sweep world_send_fails ex_state of
      Inl (e, s') \<Rightarrow> Some (e, map (\<lambda>(u, it). (u, last_checked it)) (items (cfg s')))
    | Inr s' \<Rightarrow> None) =
   Some (HTTPException, [(ex_url_a, PFloat 1700000300), (ex_url_b, PNone)])"
  by code_simp

end
